theory Spec2Isabelle
  imports Main "HOL-Library.Sublist"
begin

section \<open>KCP transport configuration (core/internal/transport/kcptun.go)\<close>

text \<open>
  The client configuration of the KCP tunnel. Go's \<open>int\<close> fields are integers (no
  arithmetic is done on them here), \<open>string\<close> fields are byte strings, and the zero
  value \<open>Config{}\<close> has every field empty, zero or false.
\<close>

record Config =
  LocalAddr :: string
  Listen :: string
  Target :: string
  RemoteAddr :: string
  Key :: string
  Crypt :: string
  Mode :: string
  Conn :: int
  AutoExpire :: int
  ScavengeTTL :: int
  MTU :: int
  SndWnd :: int
  RcvWnd :: int
  DataShard :: int
  ParityShard :: int
  DSCP :: int
  NoComp :: bool
  AckNodelay :: bool
  NoDelay :: int
  Interval :: int
  Resend :: int
  NoCongestion :: int
  SockBuf :: int
  SmuxVer :: int
  SmuxBuf :: int
  StreamBuf :: int
  KeepAlive :: int
  Log :: string
  SnmpLog :: string
  SnmpPeriod :: int
  Quiet :: bool
  TCP :: bool
  Pprof :: bool
  QPP :: bool
  QPPCount :: int
  CloseWait :: int

definition Config_zero :: Config where
  "Config_zero =
     \<lparr> LocalAddr = [], Listen = [], Target = [], RemoteAddr = [], Key = [], Crypt = [],
       Mode = [], Conn = 0, AutoExpire = 0, ScavengeTTL = 0, MTU = 0, SndWnd = 0,
       RcvWnd = 0, DataShard = 0, ParityShard = 0, DSCP = 0, NoComp = False,
       AckNodelay = False, NoDelay = 0, Interval = 0, Resend = 0, NoCongestion = 0,
       SockBuf = 0, SmuxVer = 0, SmuxBuf = 0, StreamBuf = 0, KeepAlive = 0, Log = [],
       SnmpLog = [], SnmpPeriod = 0, Quiet = False, TCP = False, Pprof = False,
       QPP = False, QPPCount = 0, CloseWait = 0 \<rparr>"

text \<open>The \<open>switch config.Mode\<close> statement at the end of \<open>NewConfig\<close>; a mode that is
  none of the four cases leaves the tuple as it is.\<close>

definition mode_switch :: "Config \<Rightarrow> Config" where
  "mode_switch config =
     (if Mode config = ''normal'' then
        config\<lparr>NoDelay := 0, Interval := 40, Resend := 2, NoCongestion := 1\<rparr>
      else if Mode config = ''fast'' then
        config\<lparr>NoDelay := 0, Interval := 30, Resend := 2, NoCongestion := 1\<rparr>
      else if Mode config = ''fast2'' then
        config\<lparr>NoDelay := 1, Interval := 20, Resend := 2, NoCongestion := 1\<rparr>
      else if Mode config = ''fast3'' then
        config\<lparr>NoDelay := 1, Interval := 10, Resend := 2, NoCongestion := 1\<rparr>
      else config)"

text \<open>The assignments of \<open>NewConfig\<close> before the switch, in the source's order.\<close>

definition NewConfig_defaults :: "string \<Rightarrow> string \<Rightarrow> string \<Rightarrow> string \<Rightarrow> Config" where
  "NewConfig_defaults remote_addr target port password =
     (let config = Config_zero\<lparr>LocalAddr := ''127.0.0.1:'' @ port, Listen := '':'' @ port\<rparr>;
          config = (if target = [] then config\<lparr>RemoteAddr := remote_addr\<rparr>
                    else config\<lparr>Target := target\<rparr>)
      in config\<lparr>Key := password, Crypt := ''aes'', Mode := ''fast3'', QPP := False,
                QPPCount := 67, Conn := 1, AutoExpire := 0, ScavengeTTL := 600,
                MTU := 1350, SndWnd := 128, RcvWnd := 512, DataShard := 10,
                ParityShard := 3, DSCP := 0, NoComp := False, NoDelay := 0,
                Interval := 50, Resend := 0, SockBuf := 4194304, SmuxVer := 1,
                SmuxBuf := 4194304, StreamBuf := 2097152, KeepAlive := 10,
                CloseWait := 0, Log := [], Quiet := True, TCP := False\<rparr>)"

definition NewConfig :: "string \<Rightarrow> string \<Rightarrow> string \<Rightarrow> string \<Rightarrow> string \<Rightarrow> Config" where
  "NewConfig remote_addr target port password salt =
     mode_switch (NewConfig_defaults remote_addr target port password)"

text \<open>The tuple handed to \<open>SetNoDelay\<close>.\<close>

definition nodelay_params :: "Config \<Rightarrow> int \<times> int \<times> int \<times> int" where
  "nodelay_params config = (NoDelay config, Interval config, Resend config, NoCongestion config)"

text \<open>
  \<open>pbkdf2.Key(password, salt, iter, keyLen, h)\<close> is a library function
  (golang.org/x/crypto); it is a parameter of the model: password, salt, iteration
  count, key length and the constructor of the hash in, key bytes out. The code passes
  \<open>sha1.New\<close>.
\<close>

datatype hash_constructor = sha1_New | sha256_New

type_synonym kdf = "string \<Rightarrow> string \<Rightarrow> nat \<Rightarrow> nat \<Rightarrow> hash_constructor \<Rightarrow> string"

definition maxSmuxVer :: int where
  "maxSmuxVer = 2"

text \<open>
  What \<open>KCPTunClient\<close> asks of package net before it derives the key: whether
  \<open>net.SplitHostPort\<close> fails on the local address (then the address is taken for a
  Unix socket), and the errors, if any, of resolving the address
  (\<open>ResolveUnixAddr\<close>, \<open>ResolveTCPAddr\<close>) and of listening on it (\<open>ListenUnix\<close>,
  \<open>ListenTCP\<close>), each given the network name and the address.
\<close>

record net_lib =
  SplitHostPort_fails :: "string \<Rightarrow> bool"
  ResolveAddr_err :: "string \<Rightarrow> string \<Rightarrow> string option"
  Listen_err :: "string \<Rightarrow> string \<Rightarrow> string option"

datatype kcp_error = ListenerError string | UnsupportedSmuxVersion int

definition listener_network :: "net_lib \<Rightarrow> string \<Rightarrow> string" where
  "listener_network net addr = (if SplitHostPort_fails net addr then ''unix'' else ''tcp'')"

text \<open>
  \<open>KCPTunClient\<close> up to the key \<open>pass\<close>: it builds the configuration, opens the local
  listener and returns the error if resolving or listening fails, refuses an unsupported
  smux version, and then derives the key from \<open>config.Key\<close> and the \<open>salt\<close> argument.
  (The QPP and scavenge checks in between only log warnings.)
\<close>

definition KCPTunClient_pass ::
  "net_lib \<Rightarrow> kdf \<Rightarrow> string \<Rightarrow> string \<Rightarrow> string \<Rightarrow> string \<Rightarrow> kcp_error + string" where
  "KCPTunClient_pass net pbkdf2_Key remote_kcp_addr kcp_listen_port password salt =
     (let config = NewConfig remote_kcp_addr [] kcp_listen_port password salt;
          network = listener_network net (LocalAddr config)
      in case ResolveAddr_err net network (LocalAddr config) of
           Some err \<Rightarrow> Inl (ListenerError err)
         | None \<Rightarrow>
             (case Listen_err net network (LocalAddr config) of
                Some err \<Rightarrow> Inl (ListenerError err)
              | None \<Rightarrow>
                  if SmuxVer config > maxSmuxVer
                  then Inl (UnsupportedSmuxVersion (SmuxVer config))
                  else Inr (pbkdf2_Key (Key config) salt 4096 32 sha1_New)))"

text \<open>\<open>KCPTunServer\<close> up to the key \<open>pass\<close>: nothing but the smux version check comes
  before the derivation (the server listens afterwards).\<close>

definition KCPTunServer_pass ::
  "kdf \<Rightarrow> string \<Rightarrow> string \<Rightarrow> string \<Rightarrow> string \<Rightarrow> kcp_error + string" where
  "KCPTunServer_pass pbkdf2_Key target kcp_server_port password salt =
     (let config = NewConfig [] target kcp_server_port password salt
      in if SmuxVer config > maxSmuxVer
         then Inl (UnsupportedSmuxVersion (SmuxVer config))
         else Inr (pbkdf2_Key (Key config) salt 4096 32 sha1_New))"

text \<open>A network on which a numeric port resolves and is free, and a stand-in for the
  library's key derivation that keeps all its arguments apart.\<close>

definition example_net :: net_lib where
  "example_net =
     \<lparr> SplitHostPort_fails = (\<lambda>addr. False),
       ResolveAddr_err = (\<lambda>network addr.
          if addr = ''127.0.0.1:9000'' then None else Some ''unknown port''),
       Listen_err = (\<lambda>network addr. None) \<rparr>"

definition example_kdf :: kdf where
  "example_kdf password salt iter keyLen h =
     (if h = sha1_New then ''sha1'' else ''other'') @ ''|'' @ password @ ''|'' @ salt @ ''|'' @
     replicate iter CHR ''i'' @ ''|'' @ replicate keyLen CHR ''k''"

section \<open>Panics\<close>

text \<open>
  A Go run-time panic is a value of the model: a function that can panic returns
  \<open>panic + 'a\<close>, with \<open>Inl\<close> for the panic. A pointer is an \<open>option\<close>, \<open>None\<close> for
  \<open>nil\<close>; a Go map of pointers is a map into options, so that a missing key and a key
  bound to \<open>nil\<close> both read as \<open>nil\<close>.
\<close>

datatype panic =
    NilPointerDereference
  | IndexOutOfRange nat nat
  | SliceBoundsOutOfRange nat nat

section \<open>Module options\<close>

subsection \<open>Package live (listed with core/internal/cc/base/ftp/file_transfer.go)\<close>

text \<open>
  \<open>def.ModuleConfig\<close> and its option struct are declared outside the sources; the
  code reads \<open>ActiveModule.Options[opt]\<close> and writes the field \<open>Val\<close> of the option, so
  these are the fields of the model. \<open>strconv.Quote\<close> is a parameter. The messages of
  \<open>logging.Errorf\<close> are collected in \<open>errors\<close>.
\<close>

record ModOption =
  Val :: string

record ModuleConfig =
  Options :: "string \<rightharpoonup> ModOption option"

record live_state =
  ActiveModule :: "ModuleConfig option"
  errors :: "string list"

definition live_SetOption ::
  "(string \<Rightarrow> string) \<Rightarrow> string \<Rightarrow> string \<Rightarrow> live_state \<Rightarrow> panic + live_state" where
  "live_SetOption Quote opt val st =
     (case ActiveModule st of
        None \<Rightarrow> Inl NilPointerDereference
      | Some module \<Rightarrow>
          (case Options module opt of
             None \<Rightarrow> Inr (st\<lparr>errors := errors st @ [''option '' @ Quote opt @ '' not found'']\<rparr>)
           | Some None \<Rightarrow> Inl NilPointerDereference
           | Some (Some optObj) \<Rightarrow>
               Inr (st\<lparr>ActiveModule :=
                      Some (module\<lparr>Options := (Options module)(opt \<mapsto> Some (optObj\<lparr>Val := val\<rparr>))\<rparr>)\<rparr>)))"

subsection \<open>Package cc (core/lib/cc/mod.go)\<close>

record CurrentOption =
  Name :: string
  Val :: string
  Vals :: "string list"

text \<open>\<open>CurrentModuleOptions[opt].Val = val\<close>: the map read gives \<open>nil\<close> for a missing
  key, and the assignment through \<open>nil\<close> panics.\<close>

definition cc_SetOption ::
  "string \<Rightarrow> string \<Rightarrow> (string \<rightharpoonup> CurrentOption option) \<Rightarrow>
     panic + (string \<rightharpoonup> CurrentOption option)" where
  "cc_SetOption opt val CurrentModuleOptions =
     (case CurrentModuleOptions opt of
        None \<Rightarrow> Inl NilPointerDereference
      | Some None \<Rightarrow> Inl NilPointerDereference
      | Some (Some optObj) \<Rightarrow>
          Inr (CurrentModuleOptions(opt \<mapsto> Some (optObj\<lparr>Val := val\<rparr>))))"

section \<open>Operator long poll (package server, handleOperatorConn)\<close>

text \<open>
  Time is counted in seconds. \<open>time.NewTimer\<close> and \<open>Reset\<close> arm the timer to fire
  \<open>d\<close> seconds from now; \<open>Stop\<close> reports whether the timer was still running, that is,
  armed and not yet expired.
\<close>

record timer =
  armed :: bool
  fires_at :: nat

definition NewTimer :: "nat \<Rightarrow> nat \<Rightarrow> timer" where
  "NewTimer now d = \<lparr> armed = True, fires_at = now + d \<rparr>"

definition timer_Stop :: "nat \<Rightarrow> timer \<Rightarrow> bool \<times> timer" where
  "timer_Stop now t = (armed t \<and> now < fires_at t, t\<lparr>armed := False\<rparr>)"

definition timer_Reset :: "nat \<Rightarrow> nat \<Rightarrow> timer \<Rightarrow> timer" where
  "timer_Reset now d t = t\<lparr>armed := True, fires_at := now + d\<rparr>"

record operator_t =
  sessionID :: string
  conn :: nat
  wgip :: string

text \<open>The server's operator map, and the connections that have been closed.\<close>

record server_state =
  OPERATORS :: "string \<rightharpoonup> operator_t"
  closed_conns :: "nat set"

text \<open>
  What the \<open>select\<close> of the loop can receive: the one-second ticker, a value on
  \<open>heartbeatCh\<close>, or the cancellation of the request context. The ticker fires once a
  second, so each \<open>TickerFired\<close> finds the clock one second later.
\<close>

datatype event = TickerFired | HeartbeatReceived | CtxDone

datatype loop_exit = HeartbeatTimeout | ContextCancelled

text \<open>
  The \<open>for { select { ... } }\<close> loop, run over the events that arrive. \<open>None\<close>: the
  events are used up and the loop is still waiting. This is the second listing of the
  function; the first differs only in that its \<open>ctx.Done()\<close> case logs and does not
  return.
\<close>

fun operator_loop :: "event list \<Rightarrow> nat \<Rightarrow> timer \<Rightarrow> loop_exit option" where
  "operator_loop [] now timeoutTimer = None"
| "operator_loop (TickerFired # es) now timeoutTimer =
     (let now = now + 1;
          (running, timeoutTimer) = timer_Stop now timeoutTimer
      in if \<not> running then Some HeartbeatTimeout
         else operator_loop es now (timer_Reset now 60 timeoutTimer))"
| "operator_loop (HeartbeatReceived # es) now timeoutTimer =
     operator_loop es now (timer_Reset now 60 timeoutTimer)"
| "operator_loop (CtxDone # es) now timeoutTimer = Some ContextCancelled"

text \<open>
  \<open>handleOperatorConn\<close> after a successful \<open>h2conn.Accept\<close>: the session is entered in
  (or its connection replaced in) \<open>OPERATORS\<close>, the timer is created, the loop runs, and
  when it returns the deferred function deletes the entry and closes the connection.
\<close>

definition attach_operator :: "string \<Rightarrow> nat \<Rightarrow> server_state \<Rightarrow> server_state" where
  "attach_operator operator_session c st =
     (case OPERATORS st operator_session of
        None \<Rightarrow> st\<lparr>OPERATORS := (OPERATORS st)
                  (operator_session \<mapsto> \<lparr> sessionID = operator_session, conn = c, wgip = [] \<rparr>)\<rparr>
      | Some operator \<Rightarrow> st\<lparr>OPERATORS := (OPERATORS st)
                  (operator_session \<mapsto> operator\<lparr>conn := c\<rparr>)\<rparr>)"

definition handleOperatorConn ::
  "string \<Rightarrow> nat \<Rightarrow> event list \<Rightarrow> server_state \<Rightarrow> loop_exit option \<times> server_state" where
  "handleOperatorConn operator_session c events st =
     (let st = attach_operator operator_session c st
      in case operator_loop events 0 (NewTimer 0 60) of
           None \<Rightarrow> (None, st)
         | Some ex \<Rightarrow>
             (Some ex, st\<lparr>OPERATORS := (OPERATORS st)(operator_session := None),
                          closed_conns := insert c (closed_conns st)\<rparr>))"

section \<open>Strings\<close>

text \<open>
  The magic string of package def (listed with file_transfer.go): the separator of the
  fields of a message payload.
\<close>

definition MagicString :: string where
  "MagicString = ''64781530-1475-4cf8-950c-dcdf4c619dbc''"

text \<open>\<open>strings.Contains(s, substr)\<close>: \<open>substr\<close> occurs at some position of \<open>s\<close>.\<close>

fun Contains :: "string \<Rightarrow> string \<Rightarrow> bool" where
  "Contains [] substr = (substr = [])"
| "Contains (c # cs) substr = (prefix substr (c # cs) \<or> Contains cs substr)"

text \<open>
  \<open>strings.Split(s, sep)\<close> cuts \<open>s\<close> at the leftmost occurrence of \<open>sep\<close>, then at the
  leftmost occurrence in what follows it, and so on; the result always has at least one
  element. \<open>genSplit\<close> scans \<open>s\<close> from the left with the current field in \<open>acc\<close>
  (reversed). An empty separator splits after each byte.
\<close>

fun genSplit :: "string \<Rightarrow> string \<Rightarrow> string \<Rightarrow> string list" where
  "genSplit sep acc [] = [rev acc]"
| "genSplit sep acc (c # cs) =
     (if sep \<noteq> [] \<and> prefix sep (c # cs)
      then rev acc # genSplit sep [] (drop (length sep) (c # cs))
      else genSplit sep (c # acc) cs)"

definition Split :: "string \<Rightarrow> string \<Rightarrow> string list" where
  "Split s sep = (if sep = [] then map (\<lambda>c. [c]) s else genSplit sep [] s)"

text \<open>\<open>strings.Join(elems, sep)\<close>.\<close>

definition Join :: "string list \<Rightarrow> string \<Rightarrow> string" where
  "Join elems sep = (case elems of [] \<Rightarrow> [] | e # es \<Rightarrow> e @ concat (map (\<lambda>x. sep @ x) es))"

text \<open>A string is borderless when none of its proper prefixes is also a suffix of it:
  then two occurrences of it cannot overlap.\<close>

definition borderless :: "string \<Rightarrow> bool" where
  "borderless m = list_all (\<lambda>k. take k m \<noteq> drop (length m - k) m) [1..<length m]"

text \<open>A single quote, and \<open>%d\<close> of \<open>fmt.Sprintf\<close> for an integer.\<close>

definition squote :: string where
  "squote = [CHR 0x27]"

fun FormatNat :: "nat \<Rightarrow> string" where
  "FormatNat n =
     (if n < 10 then [''0123456789'' ! n]
      else FormatNat (n div 10) @ [''0123456789'' ! (n mod 10)])"

declare FormatNat.simps [simp del]

definition FormatInt :: "int \<Rightarrow> string" where
  "FormatInt i = (if i < 0 then CHR ''-'' # FormatNat (nat (- i)) else FormatNat (nat i))"




section \<open>Message tunnel (package cc, processAgentData; listed with core/lib/logging/logger.go)\<close>

record MsgTunData =
  Tag :: string
  Payload :: string

record Control =
  Index :: int

text \<open>What the function logs, by kind; the text of the messages is not modelled.\<close>

datatype message =
    TargetNotFound string "string list"
  | TimestampUnparsable string
  | CommandTook bool string
  | MarshalFailed
  | APIWriteFailed
  | PsError string
  | LsError string
  | OpenLogFileFailed

text \<open>
  What is declared outside the sources and only used here: \<open>util.ParseCmd\<close>, whether
  \<open>time.Parse\<close> accepts the recorded dispatch time, the headless-API switch with
  \<open>json.Marshal\<close> and the socket write, the decoding and rendering of the \<open>ps\<close> and \<open>ls\<close>
  tables (\<open>None\<close>: \<open>json.Unmarshal\<close> failed), the debug level, three command names, the
  formatting of the output block and whether the agent log file opens.
\<close>

record tunnel_world =
  ParseCmd :: "string \<Rightarrow> string list"
  time_Parse_ok :: "string \<Rightarrow> bool"
  IsAPIEnabled :: bool
  Marshal :: "string \<Rightarrow> string \<Rightarrow> string option"
  APIConn_Write_ok :: bool
  render_ps :: "string \<Rightarrow> string option"
  render_ls :: "string \<Rightarrow> string option"
  DebugLevel :: int
  C2CmdPortFwd :: string
  C2CmdSSHD :: string
  C2CmdListDir :: string
  format_output :: "int \<Rightarrow> string \<Rightarrow> string \<Rightarrow> string"
  OpenFile_ok :: bool

text \<open>The command-result table \<open>CmdResults\<close>, shared by the tunnel and by the callers
  that wait for a result.\<close>

record results_table =
  CmdResults :: "string \<rightharpoonup> string"

text \<open>
  \<open>Targets\<close> is keyed by the agent's tag here (the source keys it by the agent pointer
  that \<open>GetTargetFromTag\<close> finds for the tag); a tag may be bound to a \<open>nil\<close> control.
  The other fields collect what the function emits.
\<close>

record tunnel_state = results_table +
  CmdTime :: "string \<rightharpoonup> string"
  Targets :: "string \<rightharpoonup> Control option"
  messages :: "message list"
  APIConn :: "string list"
  screenshots :: "(string \<times> string) list"
  FitPanes :: "nat list"
  OutputPane :: "string list"
  AgentOutputLog :: "string list"

definition say :: "message \<Rightarrow> tunnel_state \<Rightarrow> tunnel_state" where
  "say m st = st\<lparr>messages := messages st @ [m]\<rparr>"

text \<open>\<open>x := len(strings.Split(out, "\n")[0]); FitPanes(x)\<close>.\<close>

definition fit_table :: "string \<Rightarrow> tunnel_state \<Rightarrow> panic + tunnel_state" where
  "fit_table out st =
     (case Split out [CHR 0x0A] of
        [] \<Rightarrow> Inl (IndexOutOfRange 0 0)
      | l # _ \<Rightarrow> Inr (st\<lparr>FitPanes := FitPanes st @ [length l]\<rparr>))"

text \<open>
  The part of \<open>processAgentData\<close> after the result is stored and timed: the headless
  API, the switch on \<open>cmd_slice[0]\<close> and the output pane. A panic leaves the state as
  it was when it happened.
\<close>

definition show_cmd_output ::
  "tunnel_world \<Rightarrow> string \<Rightarrow> Control \<Rightarrow> string \<Rightarrow> string list \<Rightarrow> string \<Rightarrow> tunnel_state
     \<Rightarrow> panic option \<times> tunnel_state" where
  "show_cmd_output w tag contrlIf cmd cmd_slice out st =
     (case (if IsAPIEnabled w then
              (case Marshal w cmd out of
                 None \<Rightarrow> Inl (say MarshalFailed st)
               | Some d \<Rightarrow>
                   Inr (if APIConn_Write_ok w then st\<lparr>APIConn := APIConn st @ [d]\<rparr>
                        else say APIWriteFailed st))
            else Inr st) of
        Inl st \<Rightarrow> (None, st)
      | Inr st \<Rightarrow>
          (case cmd_slice of
             [] \<Rightarrow> (Some (IndexOutOfRange 0 0), st)
           | c0 # _ \<Rightarrow>
               (case (if c0 = ''screenshot'' then
                        Inr (Inr (out, st\<lparr>screenshots := screenshots st @ [(out, tag)]\<rparr>))
                      else if c0 = ''ps'' then
                        (case render_ps w out of
                           None \<Rightarrow> Inl (say (PsError out) st)
                         | Some tbl \<Rightarrow> Inr (map_sum id (Pair tbl) (fit_table tbl st)))
                      else if c0 = ''ls'' then
                        (case render_ls w out of
                           None \<Rightarrow> Inl (say (LsError out) st)
                         | Some tbl \<Rightarrow> Inr (map_sum id (Pair tbl) (fit_table tbl st)))
                      else Inr (Inr (out, st))) of
                  Inl st \<Rightarrow> (None, st)
                | Inr (Inl p) \<Rightarrow> (Some p, st)
                | Inr (Inr (out, st)) \<Rightarrow>
                    (let no_need_to_show =
                           (prefix (C2CmdPortFwd w) cmd \<or> prefix (C2CmdSSHD w) cmd \<or>
                            prefix (C2CmdListDir w) cmd)
                     in if DebugLevel w < 3 \<and> no_need_to_show then (None, st)
                        else
                          (let agent_output = format_output w (Index contrlIf) cmd out;
                               st = st\<lparr>OutputPane := OutputPane st @ [agent_output]\<rparr>
                           in if OpenFile_ok w
                              then (None, st\<lparr>AgentOutputLog := AgentOutputLog st @ [agent_output]\<rparr>)
                              else (None, say OpenLogFileFailed st))))))"

text \<open>
  \<open>processAgentData\<close>. The index expressions \<open>payloadSplit[1]\<close> and \<open>cmd_slice[0]\<close> and
  the slice expression \<open>payloadSplit[2:len(payloadSplit)-1]\<close> panic when out of range,
  as Go's do. The result is the panic, if any, and the state left behind.
\<close>

definition processAgentData ::
  "tunnel_world \<Rightarrow> MsgTunData \<Rightarrow> tunnel_state \<Rightarrow> panic option \<times> tunnel_state" where
  "processAgentData w data st =
     (let payloadSplit = Split (Payload data) MagicString
      in case payloadSplit of
           [] \<Rightarrow> (Some (IndexOutOfRange 0 0), st)
         | op # _ \<Rightarrow>
             (case Targets st (Tag data) of
                None \<Rightarrow> (None, say (TargetNotFound (Tag data) payloadSplit) st)
              | Some None \<Rightarrow> (None, say (TargetNotFound (Tag data) payloadSplit) st)
              | Some (Some contrlIf) \<Rightarrow>
                  if op \<noteq> ''cmd'' then (None, st)
                  else if length payloadSplit \<le> 1
                    then (Some (IndexOutOfRange 1 (length payloadSplit)), st)
                  else
                    (let cmd = payloadSplit ! 1;
                         cmd_slice = ParseCmd w cmd
                     in if length payloadSplit - 1 < 2
                        then (Some (SliceBoundsOutOfRange 2 (length payloadSplit - 1)), st)
                        else
                          (let out = Join (take (length payloadSplit - 1 - 2) (drop 2 payloadSplit)) '' '';
                               is_builtin_cmd = prefix ''!'' cmd;
                               cmd_id = payloadSplit ! (length payloadSplit - 1);
                               st = st\<lparr>CmdResults := (CmdResults st)(cmd_id \<mapsto> out)\<rparr>;
                               stamp = (case CmdTime st cmd_id of None \<Rightarrow> [] | Some t \<Rightarrow> t);
                               st = (if time_Parse_ok w stamp then say (CommandTook is_builtin_cmd cmd) st
                                     else say (TimestampUnparsable stamp) st)
                           in show_cmd_output w (Tag data) contrlIf cmd cmd_slice out st))))"

text \<open>A concrete tunnel: one registered agent, one command \<open>c1\<close> dispatched.\<close>

definition example_tunnel_world :: tunnel_world where
  "example_tunnel_world =
     \<lparr> ParseCmd = (\<lambda>cmd. Split cmd '' ''),
       time_Parse_ok = (\<lambda>stamp. stamp \<noteq> []),
       IsAPIEnabled = False,
       Marshal = (\<lambda>cmd out. Some (cmd @ '': '' @ out)),
       APIConn_Write_ok = True,
       render_ps = (\<lambda>out. None),
       render_ls = (\<lambda>out. None),
       DebugLevel = 2,
       C2CmdPortFwd = ''!port_fwd'',
       C2CmdSSHD = ''!sshd'',
       C2CmdListDir = ''!ls'',
       format_output = (\<lambda>idx cmd out. cmd @ '': '' @ out),
       OpenFile_ok = True \<rparr>"

definition example_tunnel_state :: tunnel_state where
  "example_tunnel_state =
     \<lparr> CmdResults = Map.empty,
       CmdTime = [''c1'' \<mapsto> ''2025-01-01 00:00:00 +0000 UTC''],
       Targets = [''abcd-agent'' \<mapsto> Some \<lparr> Index = 1 \<rparr>],
       messages = [], APIConn = [], screenshots = [], FitPanes = [],
       OutputPane = [], AgentOutputLog = [] \<rparr>"

section \<open>File transfer (core/internal/cc/base/ftp/file_transfer.go)\<close>

text \<open>The fields of \<open>util.FileStat\<close> and \<open>network.StreamHandler\<close> that the code uses
  (the channel \<open>Buf\<close> and the connection \<open>H2x\<close> of a handler are created empty).\<close>

record FileStat =
  Size :: int
  Checksum :: string

record StreamHandler =
  Token :: string
  BufSize :: nat

subsection \<open>The file system and the helpers that are not in the sources\<close>

text \<open>
  Modelled from the spec: \<open>util.IsExist\<close>, \<open>util.IsDirExist\<close>, \<open>util.FileSize\<close> and
  \<open>crypto.SHA256SumFile\<close> are not in the sources. The spec speaks of a lock that
  exists, of a final file that exists and whose checksum matches, and of the size of the
  temp file; so a path is bound to a regular file, with its size and the hex SHA-256 of
  its contents, or to a directory, or to nothing.
\<close>

datatype entry = RegularFile int string | Directory

definition IsExist :: "(string \<rightharpoonup> entry) \<Rightarrow> string \<Rightarrow> bool" where
  "IsExist fs path = (fs path \<noteq> None)"

definition IsDirExist :: "(string \<rightharpoonup> entry) \<Rightarrow> string \<Rightarrow> bool" where
  "IsDirExist fs path = (fs path = Some Directory)"

definition FileSize :: "(string \<rightharpoonup> entry) \<Rightarrow> string \<Rightarrow> int" where
  "FileSize fs path = (case fs path of Some (RegularFile n h) \<Rightarrow> n | _ \<Rightarrow> 0)"

definition SHA256SumFile :: "(string \<rightharpoonup> entry) \<Rightarrow> string \<Rightarrow> string" where
  "SHA256SumFile fs path = (case fs path of Some (RegularFile n h) \<Rightarrow> h | _ \<Rightarrow> [])"

text \<open>
  Modelled from the spec: \<open>util.RandMD5String\<close> is not in the sources. The spec gives
  the token as \<open><random16hex>-<sha256>\<close>, its first 16 bytes a random hex nonce; so
  the nonce is the 16 hex digits of the random number drawn.
\<close>

definition hexdigit :: "nat \<Rightarrow> char" where
  "hexdigit d = ''0123456789abcdef'' ! (d mod 16)"

definition is_hex :: "char \<Rightarrow> bool" where
  "is_hex c = (c \<in> set ''0123456789abcdef'')"

definition RandMD5String :: "nat \<Rightarrow> string" where
  "RandMD5String r = map (\<lambda>i. hexdigit (r div 16 ^ i)) (rev [0..<16])"

text \<open>
  What a call finds outside itself: the download directory and the name of the stat
  command (constants of packages live and def), the path functions \<open>filepath.Clean\<close>,
  \<open>filepath.Dir\<close> and \<open>util.FileBaseName\<close>, the identifier that \<open>uuid.NewString\<close>
  returns, the random number behind the nonce, whether \<open>os.MkdirAll\<close>,
  \<open>util.FileAllocate\<close> and \<open>agents.SendCmd\<close> fail (and with what error), the checksum of
  a freshly allocated file, \<open>json.Unmarshal\<close> into a \<open>FileStat\<close>, and the contents of
  the command-result table at each poll (one every 100 ms), as the message tunnel fills
  it meanwhile.
\<close>

record world =
  FileGetDir :: string
  C2CmdStat :: string
  Clean :: "string \<Rightarrow> string"
  Dir :: "string \<Rightarrow> string"
  FileBaseName :: "string \<Rightarrow> string"
  uuid_NewString :: string
  random :: nat
  MkdirAll_err :: "string option"
  FileAllocate_err :: "string option"
  allocated_sum :: "int \<Rightarrow> string"
  SendCmd_err :: "string \<Rightarrow> string option"
  Unmarshal :: "string \<Rightarrow> string + FileStat"
  polls :: "nat \<Rightarrow> string \<rightharpoonup> string"

text \<open>The server's state: the result table, the files, the registered file-transfer
  streams, and the commands handed to the agent, each with its command identifier.\<close>

record cc_state = results_table +
  files :: "string \<rightharpoonup> entry"
  FTPStreams :: "string \<rightharpoonup> StreamHandler"
  sent :: "(string \<times> string) list"

definition SendCmd :: "world \<Rightarrow> string \<Rightarrow> string \<Rightarrow> cc_state \<Rightarrow> string + cc_state" where
  "SendCmd w cmd cmd_id st =
     (case SendCmd_err w cmd of
        Some err \<Rightarrow> Inl err
      | None \<Rightarrow> Inr (st\<lparr>sent := sent st @ [(cmd, cmd_id)]\<rparr>))"

definition MkdirAll :: "world \<Rightarrow> string \<Rightarrow> cc_state \<Rightarrow> string + cc_state" where
  "MkdirAll w path st =
     (case MkdirAll_err w of
        Some err \<Rightarrow> Inl err
      | None \<Rightarrow> Inr (st\<lparr>files := (files st)(path \<mapsto> Directory)\<rparr>))"

definition FileAllocate :: "world \<Rightarrow> string \<Rightarrow> int \<Rightarrow> cc_state \<Rightarrow> string + cc_state" where
  "FileAllocate w path n st =
     (case FileAllocate_err w of
        Some err \<Rightarrow> Inl err
      | None \<Rightarrow> Inr (st\<lparr>files := (files st)(path \<mapsto> RegularFile n (allocated_sum w n))\<rparr>))"

subsection \<open>StatFile\<close>

text \<open>
  The loop \<open>for { time.Sleep(100ms); res, exists := CmdResults[cmd_id]; ... }\<close> of
  \<open>StatFile\<close> has no bound: it is a partial function, \<open>None\<close> when it never returns.
  It returns the number of the poll that found the result, and the result.
\<close>

partial_function (option) StatFile_wait ::
  "(nat \<Rightarrow> string \<rightharpoonup> string) \<Rightarrow> string \<Rightarrow> nat \<Rightarrow> (nat \<times> string) option" where
  "StatFile_wait tbl cmd_id i =
     (case tbl i cmd_id of
        Some res \<Rightarrow> Some (i, res)
      | None \<Rightarrow> StatFile_wait tbl cmd_id (Suc i))"

declare StatFile_wait.simps [code]

definition stat_cmd :: "world \<Rightarrow> string \<Rightarrow> string" where
  "stat_cmd w filepath = C2CmdStat w @ '' --path '' @ squote @ filepath @ squote"

text \<open>\<open>StatFile\<close>: \<open>None\<close> when it never returns; otherwise the error or the file
  information, and the state, in which the deferred function has deleted the entry.\<close>

definition StatFile :: "world \<Rightarrow> string \<Rightarrow> cc_state \<Rightarrow> ((string + FileStat) \<times> cc_state) option" where
  "StatFile w filepath st =
     (let cmd_id = uuid_NewString w;
          cmd = stat_cmd w filepath
      in case SendCmd w cmd cmd_id st of
           Inl err \<Rightarrow> Some (Inl err, st)
         | Inr st \<Rightarrow>
             (case StatFile_wait (polls w) cmd_id 0 of
                None \<Rightarrow> None
              | Some (i, res) \<Rightarrow>
                  Some (Unmarshal w res, st\<lparr>CmdResults := (polls w i)(cmd_id := None)\<rparr>)))"

subsection \<open>GetFile\<close>

definition GenerateGetFilePaths :: "world \<Rightarrow> string \<Rightarrow> string \<times> string \<times> string \<times> string" where
  "GenerateGetFilePaths w file_path =
     (let file_path = Clean w file_path;
          write_dir = FileGetDir w @ Dir w file_path;
          save_to_file = write_dir @ ''/'' @ FileBaseName w file_path;
          tempname = save_to_file @ ''.downloading'';
          lock = save_to_file @ ''.lock''
      in (write_dir, save_to_file, tempname, lock))"

text \<open>``create directories''.\<close>

definition mkdir_step :: "world \<Rightarrow> string \<Rightarrow> cc_state \<Rightarrow> string + cc_state" where
  "mkdir_step w write_dir st =
     (if \<not> IsDirExist (files st) write_dir then MkdirAll w write_dir st else Inr st)"

text \<open>``what if we have downloaded part of the file''.\<close>

definition resume_offset :: "(string \<rightharpoonup> entry) \<Rightarrow> string \<Rightarrow> int" where
  "resume_offset fs tempname = (if IsExist fs tempname then FileSize fs tempname else 0)"

definition get_cmd :: "string \<Rightarrow> int \<Rightarrow> string \<Rightarrow> string" where
  "get_cmd file_path offset token =
     ''get --file_path '' @ squote @ file_path @ squote @ '' --offset '' @ FormatInt offset @
     '' --token '' @ squote @ token @ squote"

text \<open>
  \<open>GetFile\<close>: \<open>None\<close> when it never returns (its \<open>StatFile\<close> does not); otherwise the
  pair it returns, \<open>Inl err\<close> for \<open>(nil, err)\<close>, \<open>Inr None\<close> for \<open>(nil, nil)\<close> and
  \<open>Inr (Some ftpSh)\<close> for \<open>(ftpSh, nil)\<close>, and the state it leaves.
\<close>

definition GetFile ::
  "world \<Rightarrow> string \<Rightarrow> cc_state \<Rightarrow> ((string + StreamHandler option) \<times> cc_state) option" where
  "GetFile w file_path st =
     (case GenerateGetFilePaths w file_path of (write_dir, save_to_file, tempname, lock) \<Rightarrow>
      (case mkdir_step w write_dir st of
         Inl err \<Rightarrow> Some (Inl (''GetFile mkdir '' @ write_dir @ '': '' @ err), st)
       | Inr st \<Rightarrow>
           if IsExist (files st) lock
           then Some (Inl (save_to_file @ '' is already being downloaded''), st)
           else
             (case StatFile w file_path st of
                None \<Rightarrow> None
              | Some (Inl err, st) \<Rightarrow>
                  Some (Inl (''GetFile: failed to stat '' @ file_path @ '': '' @ err), st)
              | Some (Inr fileinfo, st) \<Rightarrow>
                  if IsExist (files st) save_to_file \<and>
                     SHA256SumFile (files st) save_to_file = Checksum fileinfo
                  then Some (Inr None, st)
                  else
                    (case FileAllocate w save_to_file (Size fileinfo) st of
                       Inl err \<Rightarrow>
                         Some (Inl (''GetFile: '' @ file_path @ '' allocate file: '' @ err), st)
                     | Inr st \<Rightarrow>
                         (let offset = resume_offset (files st) tempname;
                              ftpSh = \<lparr> Token = RandMD5String (random w) @ ''-'' @ Checksum fileinfo,
                                        BufSize = 1024 * 8 \<rparr>;
                              st = st\<lparr>FTPStreams := (FTPStreams st)(file_path \<mapsto> ftpSh)\<rparr>;
                              cmd = get_cmd file_path offset (Token ftpSh)
                          in case SendCmd w cmd [] st of
                               Inl err \<Rightarrow> Some (Inl err, st)
                             | Inr st \<Rightarrow> Some (Inr (Some ftpSh), st))))))"

subsection \<open>The wait of moduleMemDump (core/lib/cc/modmemdump.go)\<close>

text \<open>\<open>for i := 0; i < 100; i++\<close>, one poll every 100 ms; the result is the poll that
  found the response, if one did, and \<open>cmd_res\<close>.\<close>

function moduleMemDump_wait ::
  "(nat \<Rightarrow> string \<rightharpoonup> string) \<Rightarrow> string \<Rightarrow> nat \<Rightarrow> nat option \<times> string" where
  "moduleMemDump_wait tbl cmd_id i =
     (if i < 100 then
        (case tbl i cmd_id of
           Some res \<Rightarrow> (Some i, res)
         | None \<Rightarrow> moduleMemDump_wait tbl cmd_id (Suc i))
      else (None, []))"
  by pat_completeness auto
termination
  by (relation "measure (\<lambda>(tbl, cmd_id, i). 100 - i)") auto

declare moduleMemDump_wait.simps [simp del]

datatype memdump_outcome =
    PidOptionNotFound
  | SendCmdFailed string
  | EmptyResponse
  | CallsGetFile string

text \<open>\<open>moduleMemDump\<close> up to its call of \<open>GetFile\<close> on the path the agent answered
  (the entry it found is deleted from the shared table; that is no part of the outcome).\<close>

definition moduleMemDump ::
  "world \<Rightarrow> string \<Rightarrow> (string \<rightharpoonup> CurrentOption option) \<Rightarrow> panic + memdump_outcome" where
  "moduleMemDump w C2CmdMemDump opts =
     (case opts ''pid'' of
        None \<Rightarrow> Inr PidOptionNotFound
      | Some None \<Rightarrow> Inl NilPointerDereference
      | Some (Some pidOpt) \<Rightarrow>
          (let cmd = C2CmdMemDump @ '' --pid '' @ Val pidOpt;
               cmd_id = uuid_NewString w
           in case SendCmd_err w cmd of
                Some err \<Rightarrow> Inr (SendCmdFailed err)
              | None \<Rightarrow>
                  (let path = snd (moduleMemDump_wait (polls w) cmd_id 0)
                   in if path = [] then Inr EmptyResponse else Inr (CallsGetFile path))))"

subsection \<open>A concrete server\<close>

text \<open>An agent that answers every stat of \<open>/etc/hostname\<close> with size 12 and checksum
  \<open>H\<close>, and three states of the download directory: empty, holding a partial download of
  5 bytes, and holding the complete file.\<close>

definition example_world :: world where
  "example_world =
     \<lparr> FileGetDir = ''/root/.emp3r0r/file-get'',
       C2CmdStat = ''!stat'',
       Clean = (\<lambda>p. p),
       Dir = (\<lambda>p. if p = ''/etc/hostname'' then ''/etc'' else ''.''),
       FileBaseName = (\<lambda>p. if p = ''/etc/hostname'' then ''hostname'' else p),
       uuid_NewString = ''id-1'',
       random = 81985529216486895,
       MkdirAll_err = None,
       FileAllocate_err = None,
       allocated_sum = (\<lambda>n. ''sum-of-zeros''),
       SendCmd_err = (\<lambda>cmd. None),
       Unmarshal = (\<lambda>res. if res = ''stat-reply'' then Inr \<lparr> Size = 12, Checksum = ''H'' \<rparr>
                           else Inl ''invalid character''),
       polls = (\<lambda>i. [''id-1'' \<mapsto> ''stat-reply'', ''id-2'' \<mapsto> ''stat-reply'']) \<rparr>"

definition example_state :: cc_state where
  "example_state = \<lparr> CmdResults = Map.empty, files = Map.empty, FTPStreams = Map.empty, sent = [] \<rparr>"

definition example_partial :: cc_state where
  "example_partial =
     \<lparr> CmdResults = Map.empty,
       files = [''/root/.emp3r0r/file-get/etc'' \<mapsto> Directory,
                ''/root/.emp3r0r/file-get/etc/hostname.downloading'' \<mapsto> RegularFile 5 ''partial''],
       FTPStreams = Map.empty, sent = [] \<rparr>"

definition example_complete :: cc_state where
  "example_complete =
     \<lparr> CmdResults = Map.empty,
       files = [''/root/.emp3r0r/file-get/etc'' \<mapsto> Directory,
                ''/root/.emp3r0r/file-get/etc/hostname'' \<mapsto> RegularFile 12 ''H''],
       FTPStreams = Map.empty, sent = [] \<rparr>"

section \<open>Theorems\<close>

subsection \<open>KCP presets and key derivation\<close>

lemma NewConfig_defaults_Mode:
  "Mode (NewConfig_defaults r t p pw) = ''fast3''"
  by (simp add: NewConfig_defaults_def Let_def)

lemma NewConfig_defaults_Key:
  "Key (NewConfig_defaults r t p pw) = pw"
  by (simp add: NewConfig_defaults_def Let_def)

lemma NewConfig_defaults_SmuxVer:
  "SmuxVer (NewConfig_defaults r t p pw) = 1"
  by (simp add: NewConfig_defaults_def Let_def)

lemma NewConfig_fast3:
  "NewConfig r t p pw s =
     (NewConfig_defaults r t p pw)\<lparr>NoDelay := 1, Interval := 10, Resend := 2, NoCongestion := 1\<rparr>"
  by (simp add: NewConfig_def mode_switch_def NewConfig_defaults_Mode)

lemma NewConfig_defaults_LocalAddr:
  "LocalAddr (NewConfig_defaults r t p pw) = ''127.0.0.1:'' @ p"
  by (simp add: NewConfig_defaults_def Let_def Config_zero_def)

lemma KCPTunClient_pass_key:
  "KCPTunClient_pass net pbkdf2_Key r p pw s = Inr key \<Longrightarrow> key = pbkdf2_Key pw s 4096 32 sha1_New"
  by (auto simp: KCPTunClient_pass_def Let_def NewConfig_fast3 NewConfig_defaults_Key
        split: option.splits if_splits)

lemma KCPTunClient_pass_listening:
  assumes "ResolveAddr_err net (listener_network net (''127.0.0.1:'' @ p)) (''127.0.0.1:'' @ p) = None"
    and "Listen_err net (listener_network net (''127.0.0.1:'' @ p)) (''127.0.0.1:'' @ p) = None"
  shows "KCPTunClient_pass net pbkdf2_Key r p pw s = Inr (pbkdf2_Key pw s 4096 32 sha1_New)"
  using assms
  by (simp add: KCPTunClient_pass_def Let_def NewConfig_fast3 NewConfig_defaults_Key
        NewConfig_defaults_SmuxVer NewConfig_defaults_LocalAddr maxSmuxVer_def)

text \<open>
  C9. The switch on the performance profile sets (nodelay, interval, resend,
  nocongestion) to (0,40,2,1) for normal, (0,30,2,1) for fast, (1,20,2,1) for fast2 and
  (1,10,2,1) for fast3; \<open>NewConfig\<close> itself selects fast3 and so returns (1,10,2,1).
  Whenever the client derives a key, it is \<open>pbkdf2.Key\<close> of the pre-shared key with the
  given salt, 4096 iterations, 32 bytes of output and \<open>sha1.New\<close>; it does derive one
  when its local listener \<open>127.0.0.1:<port>\<close> resolves and opens (otherwise it returns
  the listener's error first); and the server always derives that same key.
\<close>

theorem kcp_presets_and_derived_key:
  "nodelay_params (mode_switch (c\<lparr>Mode := ''normal''\<rparr>)) = (0, 40, 2, 1) \<and>
   nodelay_params (mode_switch (c\<lparr>Mode := ''fast''\<rparr>)) = (0, 30, 2, 1) \<and>
   nodelay_params (mode_switch (c\<lparr>Mode := ''fast2''\<rparr>)) = (1, 20, 2, 1) \<and>
   nodelay_params (mode_switch (c\<lparr>Mode := ''fast3''\<rparr>)) = (1, 10, 2, 1) \<and>
   Mode (NewConfig r t p pw s) = ''fast3'' \<and>
   nodelay_params (NewConfig r t p pw s) = (1, 10, 2, 1) \<and>
   (\<forall>key. KCPTunClient_pass net pbkdf2_Key r p pw s = Inr key
      \<longrightarrow> key = pbkdf2_Key pw s 4096 32 sha1_New) \<and>
   (ResolveAddr_err net (listener_network net (''127.0.0.1:'' @ p)) (''127.0.0.1:'' @ p) = None \<and>
    Listen_err net (listener_network net (''127.0.0.1:'' @ p)) (''127.0.0.1:'' @ p) = None
      \<longrightarrow> KCPTunClient_pass net pbkdf2_Key r p pw s = Inr (pbkdf2_Key pw s 4096 32 sha1_New)) \<and>
   KCPTunServer_pass pbkdf2_Key t p pw s = Inr (pbkdf2_Key pw s 4096 32 sha1_New)"
proof -
  have m: "Mode (NewConfig r t p pw s) = ''fast3''"
    by (simp add: NewConfig_fast3 NewConfig_defaults_Mode)
  have n: "nodelay_params (NewConfig r t p pw s) = (1, 10, 2, 1)"
    by (simp add: NewConfig_fast3 nodelay_params_def)
  have sv: "KCPTunServer_pass pbkdf2_Key t p pw s = Inr (pbkdf2_Key pw s 4096 32 sha1_New)"
    by (simp add: KCPTunServer_pass_def Let_def NewConfig_fast3 NewConfig_defaults_Key
          NewConfig_defaults_SmuxVer maxSmuxVer_def)
  have presets:
    "nodelay_params (mode_switch (c\<lparr>Mode := ''normal''\<rparr>)) = (0, 40, 2, 1) \<and>
     nodelay_params (mode_switch (c\<lparr>Mode := ''fast''\<rparr>)) = (0, 30, 2, 1) \<and>
     nodelay_params (mode_switch (c\<lparr>Mode := ''fast2''\<rparr>)) = (1, 20, 2, 1) \<and>
     nodelay_params (mode_switch (c\<lparr>Mode := ''fast3''\<rparr>)) = (1, 10, 2, 1)"
    by (simp add: mode_switch_def nodelay_params_def)
  show ?thesis
    using presets m n sv KCPTunClient_pass_key[of net pbkdf2_Key r p pw s]
      KCPTunClient_pass_listening[of net p pbkdf2_Key r pw s]
    by blast
qed

theorem kcp_presets_and_derived_key_witness:
  "KCPTunClient_pass example_net example_kdf ''203.0.113.7:8443'' ''9000'' ''secret'' MagicString
     = Inr (example_kdf ''secret'' MagicString 4096 32 sha1_New) \<and>
   KCPTunClient_pass example_net example_kdf ''203.0.113.7:8443'' ''not-a-port'' ''secret'' MagicString
     = Inl (ListenerError ''unknown port'')"
proof -
  have h: "ResolveAddr_err example_net
             (listener_network example_net (''127.0.0.1:'' @ ''9000'')) (''127.0.0.1:'' @ ''9000'') = None \<and>
           Listen_err example_net
             (listener_network example_net (''127.0.0.1:'' @ ''9000'')) (''127.0.0.1:'' @ ''9000'') = None"
    by (simp add: example_net_def)
  have 1: "KCPTunClient_pass example_net example_kdf ''203.0.113.7:8443'' ''9000'' ''secret'' MagicString
     = Inr (example_kdf ''secret'' MagicString 4096 32 sha1_New)"
    using kcp_presets_and_derived_key
      [where p = "''9000''" and pw = "''secret''" and s = MagicString and net = example_net
         and pbkdf2_Key = example_kdf and r = "''203.0.113.7:8443''"] h
    by blast
  have 2: "KCPTunClient_pass example_net example_kdf ''203.0.113.7:8443'' ''not-a-port'' ''secret'' MagicString
     = Inl (ListenerError ''unknown port'')"
    by (simp add: KCPTunClient_pass_def Let_def NewConfig_fast3 NewConfig_defaults_LocalAddr
          example_net_def listener_network_def)
  from 1 2 show ?thesis by simp
qed

subsection \<open>Setting an option that the module does not have\<close>

lemma live_SetOption_unknown:
  "ActiveModule st = Some m \<Longrightarrow> Options m opt = None \<Longrightarrow>
   live_SetOption Quote opt val st =
     Inr (st\<lparr>errors := errors st @ [''option '' @ Quote opt @ '' not found'']\<rparr>)"
  by (simp add: live_SetOption_def)

lemma cc_SetOption_unknown:
  "opts opt = None \<Longrightarrow> cc_SetOption opt val opts = Inl NilPointerDereference"
  by (simp add: cc_SetOption_def)

text \<open>
  C6. In package cc, setting the option \<open>nosuch\<close> while the selected module has only
  the option \<open>pid\<close> panics with a nil pointer dereference: no error message is
  produced. (Package live's \<open>SetOption\<close> reports \<open>option "nosuch" not found\<close> and changes
  nothing, see \<open>live_SetOption_unknown\<close>.)
\<close>

theorem cc_SetOption_unknown_option_panics:
  "cc_SetOption ''nosuch'' ''1234''
     [''pid'' \<mapsto> Some \<lparr> Name = ''pid'', Val = ''<blank>'', Vals = [] \<rparr>]
   = Inl NilPointerDereference"
  by (simp add: cc_SetOption_def)

subsection \<open>Operator heartbeat timeout\<close>

text \<open>The timeout branch cannot be taken: whatever ticks and heartbeats arrive, the loop
  goes on, since the timer is always 60 seconds ahead of the clock.\<close>

lemma operator_loop_goes_on:
  "list_all (\<lambda>e. e \<noteq> CtxDone) es \<Longrightarrow> armed t \<Longrightarrow> fires_at t = now + 60 \<Longrightarrow>
   operator_loop es now t = None"
proof (induction es arbitrary: now t)
  case Nil
  then show ?case by simp
next
  case (Cons e es)
  from Cons.prems(1) have es: "list_all (\<lambda>e. e \<noteq> CtxDone) es" and e: "e \<noteq> CtxDone"
    by simp_all
  show ?case
  proof (cases e)
    case TickerFired
    have "operator_loop es (Suc now) (timer_Reset (Suc now) 60 (t\<lparr>armed := False\<rparr>)) = None"
      by (rule Cons.IH[OF es]) (simp_all add: timer_Reset_def)
    with TickerFired Cons.prems show ?thesis
      by (simp add: timer_Stop_def)
  next
    case HeartbeatReceived
    have "operator_loop es now (timer_Reset now 60 t) = None"
      using Cons.prems by (intro Cons.IH[OF es]) (simp_all add: timer_Reset_def)
    with HeartbeatReceived show ?thesis by simp
  next
    case CtxDone
    with e show ?thesis by simp
  qed
qed

lemma operator_loop_ticks:
  "armed t \<Longrightarrow> fires_at t = now + 60 \<Longrightarrow>
   operator_loop (replicate n TickerFired) now t = None"
  by (rule operator_loop_goes_on) (simp_all add: list_all_iff)

text \<open>
  C1. An operator attaches and then sends nothing at all. However many seconds pass
  (\<open>n\<close> ticks of the one-second ticker, so also 60 and more), the loop has not
  returned: every tick finds the timer still running, because the tick before re-armed
  it for 60 seconds, and re-arms it again. The session stays in \<open>OPERATORS\<close> and its
  connection is not closed.
\<close>

theorem silent_operator_is_never_timed_out:
  "handleOperatorConn ''op1'' 1 (replicate n TickerFired)
     \<lparr> OPERATORS = Map.empty, closed_conns = {} \<rparr>
   = (None, \<lparr> OPERATORS = [''op1'' \<mapsto> \<lparr> sessionID = ''op1'', conn = 1, wgip = [] \<rparr>],
              closed_conns = {} \<rparr>)"
proof -
  have "operator_loop (replicate n TickerFired) 0 (NewTimer 0 60) = None"
    by (rule operator_loop_ticks) (simp_all add: NewTimer_def)
  then show ?thesis
    by (simp add: handleOperatorConn_def attach_operator_def)
qed

subsection \<open>Splitting a payload at the magic string\<close>

lemma genSplit_nonempty: "genSplit sep acc s \<noteq> []"
  by (induction sep acc s rule: genSplit.induct) auto

lemma not_Contains_not_prefix: "\<not> Contains s sep \<Longrightarrow> \<not> prefix sep s"
  by (cases s) auto

lemma genSplit_no_sep:
  "\<not> Contains s sep \<Longrightarrow> genSplit sep acc s = [rev acc @ s]"
  by (induction s arbitrary: acc) auto

lemma borderlessD:
  "borderless m \<Longrightarrow> 0 < k \<Longrightarrow> k < length m \<Longrightarrow> take k m \<noteq> drop (length m - k) m"
  by (simp add: borderless_def list_all_iff)

lemma no_match_across:
  assumes b: "borderless sep" and nx: "\<not> prefix sep x" and x: "x \<noteq> []"
  shows "\<not> prefix sep (x @ sep @ rest)"
proof
  assume p: "prefix sep (x @ sep @ rest)"
  show False
  proof (cases "length sep \<le> length x")
    case True
    with p have "prefix sep x"
      by (metis prefix_length_prefix prefixI append.assoc)
    with nx show False by simp
  next
    case False
    then have l: "length x < length sep" by simp
    from p obtain zs where e: "x @ sep @ rest = sep @ zs" by (auto simp: prefix_def)
    have "take (length sep) (x @ sep @ rest) = sep" using e by simp
    then have s: "x @ take (length sep - length x) sep = sep"
      using l by simp
    define k where "k = length sep - length x"
    have lx: "0 < length x" using x by simp
    have k: "0 < k" "k < length sep" using l lx unfolding k_def by linarith+
    have "drop (length x) sep = take k sep"
      using s by (metis append_eq_conv_conj k_def)
    moreover have "length sep - k = length x" using l by (simp add: k_def)
    ultimately have "take k sep = drop (length sep - k) sep" by simp
    with borderlessD[OF b k] show False by simp
  qed
qed

lemma genSplit_field:
  "borderless sep \<Longrightarrow> sep \<noteq> [] \<Longrightarrow> \<not> Contains x sep \<Longrightarrow>
   genSplit sep acc (x @ sep @ rest) = (rev acc @ x) # genSplit sep [] rest"
proof (induction x arbitrary: acc)
  case Nil
  then show ?case by (cases sep) auto
next
  case (Cons c x)
  from Cons.prems have np: "\<not> prefix sep (c # x)" and nc: "\<not> Contains x sep" by auto
  have "\<not> prefix sep ((c # x) @ sep @ rest)"
    by (rule no_match_across[OF Cons.prems(1) np]) simp
  then show ?case using Cons.IH[OF Cons.prems(1,2) nc] by simp
qed

lemma MagicString_borderless: "borderless MagicString"
  by (simp add: borderless_def MagicString_def upt_rec)

lemma MagicString_nonempty: "MagicString \<noteq> []"
  by (simp add: MagicString_def)

lemma cmd_no_magic: "\<not> Contains ''cmd'' MagicString"
  by (simp add: MagicString_def)

lemmas magic_field = genSplit_field[OF MagicString_borderless MagicString_nonempty]

lemma Split_wellformed:
  assumes c: "\<not> Contains command MagicString" and out: "\<not> Contains output MagicString"
    and i: "\<not> Contains cmd_id MagicString"
  shows "Split (''cmd'' @ MagicString @ command @ MagicString @ output @ MagicString @ cmd_id) MagicString
         = [''cmd'', command, output, cmd_id]"
proof -
  have "genSplit MagicString [] cmd_id = [cmd_id]"
    using genSplit_no_sep[OF i, of "[]"] by simp
  then have "genSplit MagicString [] (output @ MagicString @ cmd_id) = [output, cmd_id]"
    using magic_field[OF out, of "[]" cmd_id] by simp
  then have "genSplit MagicString [] (command @ MagicString @ output @ MagicString @ cmd_id)
             = [command, output, cmd_id]"
    using magic_field[OF c, of "[]" "output @ MagicString @ cmd_id"] by simp
  then have "genSplit MagicString [] (''cmd'' @ MagicString @ command @ MagicString @ output @ MagicString @ cmd_id)
             = [''cmd'', command, output, cmd_id]"
    using magic_field[OF cmd_no_magic, of "[]" "command @ MagicString @ output @ MagicString @ cmd_id"]
    by simp
  then show ?thesis
    by (simp only: Split_def MagicString_nonempty if_False)
qed

lemma Split_nonempty: "Split s MagicString \<noteq> []"
  by (simp add: Split_def MagicString_nonempty genSplit_nonempty)

subsection \<open>Inbound payloads\<close>

lemma say_CmdResults [simp]: "CmdResults (say m st) = CmdResults st"
  by (simp add: say_def)

lemma show_cmd_output_CmdResults:
  "CmdResults (snd (show_cmd_output w tag c cmd cmd_slice out st)) = CmdResults st"
  by (auto simp: show_cmd_output_def fit_table_def Let_def
        split: option.splits list.splits sum.splits prod.splits if_splits)

lemma processAgentData_unknown_op:
  assumes "Targets st tag = Some (Some contrlIf)"
    and "hd (Split payload MagicString) \<noteq> ''cmd''"
  shows "processAgentData w \<lparr> Tag = tag, Payload = payload \<rparr> st = (None, st)"
  using assms Split_nonempty[of payload]
  by (cases "Split payload MagicString") (simp_all add: processAgentData_def Let_def)

lemma processAgentData_four_fields:
  assumes "Targets st tag = Some (Some contrlIf)"
    and "Split payload MagicString = [''cmd'', command, output, cmd_id]"
  shows "CmdResults (snd (processAgentData w \<lparr> Tag = tag, Payload = payload \<rparr> st))
         = (CmdResults st)(cmd_id \<mapsto> output)"
  using assms
  by (simp add: processAgentData_def Let_def show_cmd_output_CmdResults Join_def)

text \<open>
  C2. A registered agent sends the payload \<open>cmd\<close> alone, or \<open>cmd<MAGIC>x\<close>. The first
  panics at \<open>payloadSplit[1]\<close> (index 1 out of range, length 1), the second at
  \<open>payloadSplit[2:len(payloadSplit)-1]\<close> (slice bounds 2:1): neither is dropped.
\<close>

theorem short_cmd_payload_panics:
  "processAgentData w \<lparr> Tag = ''abcd-agent'', Payload = ''cmd'' \<rparr>
     (st\<lparr>Targets := [''abcd-agent'' \<mapsto> Some c]\<rparr>)
   = (Some (IndexOutOfRange 1 1), st\<lparr>Targets := [''abcd-agent'' \<mapsto> Some c]\<rparr>) \<and>
   processAgentData w \<lparr> Tag = ''abcd-agent'', Payload = ''cmd'' @ MagicString @ ''x'' \<rparr>
     (st\<lparr>Targets := [''abcd-agent'' \<mapsto> Some c]\<rparr>)
   = (Some (SliceBoundsOutOfRange 2 1), st\<lparr>Targets := [''abcd-agent'' \<mapsto> Some c]\<rparr>)"
  by (simp add: processAgentData_def Split_def MagicString_def Let_def)

text \<open>
  C4. A registered agent sends \<open>cmd<MAGIC>command<MAGIC>output<MAGIC>cmd_id\<close>, where
  the magic string occurs in none of \<open>command\<close>, \<open>output\<close> and \<open>cmd_id\<close>. Afterwards the
  command-result table holds exactly \<open>output\<close> under \<open>cmd_id\<close> (whatever the rest of the
  function does with the output).
\<close>

theorem wellformed_payload_stores_output:
  assumes "Targets st tag = Some (Some contrlIf)"
    and "\<not> Contains command MagicString" and "\<not> Contains output MagicString"
    and "\<not> Contains cmd_id MagicString"
  shows "CmdResults (snd (processAgentData w
            \<lparr> Tag = tag,
              Payload = ''cmd'' @ MagicString @ command @ MagicString @ output @ MagicString @ cmd_id \<rparr>
            st)) cmd_id = Some output"
  using processAgentData_four_fields[OF assms(1) Split_wellformed[OF assms(2,3,4)], of w]
  by simp

theorem wellformed_payload_stores_output_witness:
  "Targets example_tunnel_state ''abcd-agent'' = Some (Some \<lparr> Index = 1 \<rparr>) \<and>
   \<not> Contains ''echo hi'' MagicString \<and> \<not> Contains ''hi'' MagicString \<and>
   \<not> Contains ''c1'' MagicString \<and>
   CmdResults (snd (processAgentData example_tunnel_world
      \<lparr> Tag = ''abcd-agent'',
        Payload = ''cmd'' @ MagicString @ ''echo hi'' @ MagicString @ ''hi'' @ MagicString @ ''c1'' \<rparr>
      example_tunnel_state)) ''c1'' = Some ''hi''"
proof -
  have t: "Targets example_tunnel_state ''abcd-agent'' = Some (Some \<lparr> Index = 1 \<rparr>)"
    by (simp add: example_tunnel_state_def)
  have c: "\<not> Contains ''echo hi'' MagicString" by (simp add: MagicString_def)
  have out: "\<not> Contains ''hi'' MagicString" by (simp add: MagicString_def)
  have i: "\<not> Contains ''c1'' MagicString" by (simp add: MagicString_def)
  from wellformed_payload_stores_output[OF t c out i, of example_tunnel_world] t c out i
  show ?thesis by blast
qed


subsection \<open>Waiting for a command result\<close>

lemma StatFile_wait_found:
  assumes "StatFile_wait tbl cmd_id i = Some r"
  shows "\<exists>j\<ge>i. tbl j cmd_id \<noteq> None"
proof (rule StatFile_wait.raw_induct
         [where P = "\<lambda>tbl cmd_id i r. \<exists>j\<ge>i. tbl j cmd_id \<noteq> None", OF _ assms])
  fix wait :: "(nat \<Rightarrow> string \<rightharpoonup> string) \<Rightarrow> string \<Rightarrow> nat \<Rightarrow> (nat \<times> string) option"
    and tbl cmd_id i r
  assume IH: "\<And>tbl cmd_id i y. wait tbl cmd_id i = Some y \<Longrightarrow> \<exists>j\<ge>i. tbl j cmd_id \<noteq> None"
    and eq: "(case tbl i cmd_id of None \<Rightarrow> wait tbl cmd_id (Suc i)
              | Some res \<Rightarrow> Some (i, res)) = Some r"
  show "\<exists>j\<ge>i. tbl j cmd_id \<noteq> None"
  proof (cases "tbl i cmd_id")
    case None
    with eq have "wait tbl cmd_id (Suc i) = Some r" by simp
    from IH[OF this] obtain j where "Suc i \<le> j" "tbl j cmd_id \<noteq> None" by blast
    then show ?thesis by (metis Suc_leD)
  next
    case (Some a)
    then show ?thesis by auto
  qed
qed

lemma StatFile_wait_silent:
  "\<forall>j. tbl j cmd_id = None \<Longrightarrow> StatFile_wait tbl cmd_id i = None"
  using StatFile_wait_found[of tbl cmd_id i] by (cases "StatFile_wait tbl cmd_id i") auto

lemma StatFile_wait_now:
  "tbl i cmd_id = Some res \<Longrightarrow> StatFile_wait tbl cmd_id i = Some (i, res)"
  by (subst StatFile_wait.simps) simp

lemma moduleMemDump_wait_silent:
  "\<forall>j. tbl j cmd_id = None \<Longrightarrow> moduleMemDump_wait tbl cmd_id i = (None, [])"
proof (induction tbl cmd_id i rule: moduleMemDump_wait.induct)
  case (1 tbl cmd_id i)
  then show ?case by (subst moduleMemDump_wait.simps) simp
qed

lemma moduleMemDump_times_out:
  assumes "opts ''pid'' = Some (Some pidOpt)"
    and "SendCmd_err w (C2CmdMemDump @ '' --pid '' @ Val pidOpt) = None"
    and "\<forall>j. polls w j (uuid_NewString w) = None"
  shows "moduleMemDump w C2CmdMemDump opts = Inr EmptyResponse"
  using assms by (simp add: moduleMemDump_def Let_def moduleMemDump_wait_silent)

text \<open>
  C5. \<open>StatFile\<close> sends its stat command to an agent that never answers (the command
  is accepted, and no poll of the result table ever finds the command identifier). The
  call never returns: there is no timeout. (The wait of \<open>moduleMemDump\<close> gives up after
  100 polls, see \<open>moduleMemDump_times_out\<close>.)
\<close>

theorem StatFile_never_returns:
  "StatFile (w\<lparr>SendCmd_err := \<lambda>cmd. None, polls := \<lambda>i. Map.empty\<rparr>) filepath st = None"
  by (simp add: StatFile_def SendCmd_def Let_def StatFile_wait_silent)

subsection \<open>GetFile\<close>



lemma SendCmd_Inr:
  "SendCmd w cmd cmd_id st = Inr st' \<Longrightarrow> st' = st\<lparr>sent := sent st @ [(cmd, cmd_id)]\<rparr>"
  by (auto simp: SendCmd_def split: option.splits)

lemma MkdirAll_Inr:
  "MkdirAll w path st = Inr st' \<Longrightarrow> st' = st\<lparr>files := (files st)(path \<mapsto> Directory)\<rparr>"
  by (auto simp: MkdirAll_def split: option.splits)

lemma FileAllocate_Inr:
  "FileAllocate w path n st = Inr st' \<Longrightarrow>
   st' = st\<lparr>files := (files st)(path \<mapsto> RegularFile n (allocated_sum w n))\<rparr>"
  by (auto simp: FileAllocate_def split: option.splits)

lemma StatFile_Some:
  assumes "StatFile w filepath st = Some (r, st')"
  shows "files st' = files st \<and> FTPStreams st' = FTPStreams st \<and>
         ((\<exists>err. r = Inl err \<and> st' = st) \<or>
          (\<exists>i res. StatFile_wait (polls w) (uuid_NewString w) 0 = Some (i, res) \<and>
                   r = Unmarshal w res \<and>
                   sent st' = sent st @ [(stat_cmd w filepath, uuid_NewString w)]))"
  using assms
  by (auto simp: StatFile_def Let_def dest!: SendCmd_Inr split: sum.splits option.splits)



lemma mkdir_step_sent:
  "mkdir_step w write_dir st = Inr st1 \<Longrightarrow> sent st1 = sent st \<and> FTPStreams st1 = FTPStreams st"
  by (auto simp: mkdir_step_def dest!: MkdirAll_Inr split: if_splits)

text \<open>What has happened when \<open>GetFile\<close> returns a stream handler.\<close>

lemma GetFile_handler:
  assumes g: "GetFile w file_path st = Some (Inr (Some ftpSh), st')"
    and p: "GenerateGetFilePaths w file_path = (write_dir, save_to_file, tempname, lock)"
  shows "\<exists>st1 st2 st3 fileinfo.
           mkdir_step w write_dir st = Inr st1 \<and>
           \<not> IsExist (files st1) lock \<and>
           StatFile w file_path st1 = Some (Inr fileinfo, st2) \<and>
           FileAllocate w save_to_file (Size fileinfo) st2 = Inr st3 \<and>
           ftpSh = \<lparr> Token = RandMD5String (random w) @ ''-'' @ Checksum fileinfo, BufSize = 8192 \<rparr> \<and>
           st' = st3\<lparr>FTPStreams := (FTPStreams st3)(file_path \<mapsto> ftpSh),
                     sent := sent st3 @
                       [(get_cmd file_path (resume_offset (files st3) tempname) (Token ftpSh), [])]\<rparr>"
  using g unfolding GetFile_def p
  by (auto simp: Let_def dest!: SendCmd_Inr split: sum.splits option.splits if_splits prod.splits)

lemma GetFile_locked:
  assumes "GenerateGetFilePaths w file_path = (write_dir, save_to_file, tempname, lock)"
    and "IsDirExist (files st) write_dir" and "IsExist (files st) lock"
  shows "GetFile w file_path st = Some (Inl (save_to_file @ '' is already being downloaded''), st)"
  using assms by (simp add: GetFile_def mkdir_step_def)

lemmas example_simps =
  GetFile_def GenerateGetFilePaths_def StatFile_def SendCmd_def MkdirAll_def FileAllocate_def
  mkdir_step_def resume_offset_def
  IsExist_def IsDirExist_def FileSize_def SHA256SumFile_def example_world_def Let_def
  StatFile_wait_now get_cmd_def stat_cmd_def squote_def FormatInt_def FormatNat.simps
  RandMD5String_def hexdigit_def upt_rec

lemma example_paths:
  "GenerateGetFilePaths example_world ''/etc/hostname'' =
     (''/root/.emp3r0r/file-get/etc'', ''/root/.emp3r0r/file-get/etc/hostname'',
      ''/root/.emp3r0r/file-get/etc/hostname.downloading'',
      ''/root/.emp3r0r/file-get/etc/hostname.lock'')"
  by (simp add: GenerateGetFilePaths_def example_world_def Let_def)

lemma example_partial_run:
  "GetFile example_world ''/etc/hostname'' example_partial =
     Some (Inr (Some \<lparr> Token = ''0123456789abcdef-H'', BufSize = 8192 \<rparr>),
           example_partial
             \<lparr> CmdResults := [''id-2'' \<mapsto> ''stat-reply''],
               files := (files example_partial)
                 (''/root/.emp3r0r/file-get/etc/hostname'' \<mapsto> RegularFile 12 ''sum-of-zeros''),
               FTPStreams := [''/etc/hostname'' \<mapsto> \<lparr> Token = ''0123456789abcdef-H'', BufSize = 8192 \<rparr>],
               sent := [(stat_cmd example_world ''/etc/hostname'', ''id-1''),
                        (get_cmd ''/etc/hostname'' 5 ''0123456789abcdef-H'', [])] \<rparr>)"
  by (simp add: example_simps example_partial_def)

text \<open>
  C3. Two calls of \<open>GetFile\<close> for \<open>/etc/hostname\<close>, one after the other, into an empty
  download directory. The first returns a stream handler and leaves no lock file
  (\<open>GetFile\<close> tests for the lock and never creates it), so the second returns a stream
  handler too, and two \<open>get\<close> commands have gone to the agent.
\<close>

theorem two_GetFile_calls_both_start_a_transfer:
  "\<exists>sh1 st1 sh2 st2.
     GetFile example_world ''/etc/hostname'' example_state = Some (Inr (Some sh1), st1) \<and>
     \<not> IsExist (files st1) ''/root/.emp3r0r/file-get/etc/hostname.lock'' \<and>
     GetFile (example_world\<lparr>uuid_NewString := ''id-2'', random := 1\<rparr>) ''/etc/hostname'' st1
       = Some (Inr (Some sh2), st2) \<and>
     sent st2 =
       [(''!stat --path '' @ squote @ ''/etc/hostname'' @ squote, ''id-1''),
        (get_cmd ''/etc/hostname'' 0 ''0123456789abcdef-H'', []),
        (''!stat --path '' @ squote @ ''/etc/hostname'' @ squote, ''id-2''),
        (get_cmd ''/etc/hostname'' 0 ''0000000000000001-H'', [])]"
  by (simp add: example_simps example_state_def)










lemma RandMD5String_length: "length (RandMD5String r) = 16"
  by (simp add: RandMD5String_def)

lemma is_hex_hexdigit: "is_hex (hexdigit d)"
  unfolding is_hex_def hexdigit_def by (rule nth_mem) simp

lemma RandMD5String_hex: "list_all is_hex (RandMD5String r)"
  by (simp add: RandMD5String_def list_all_iff is_hex_hexdigit)

text \<open>Every returning call either leaves the table of streams as it was and returns no
  handler, or has registered one handler for the path.\<close>

lemma GetFile_stream_table:
  assumes g: "GetFile w file_path st = Some (r, st')"
  shows "(FTPStreams st' = FTPStreams st \<and> (\<forall>h. r \<noteq> Inr (Some h))) \<or>
         (\<exists>i res fileinfo.
            StatFile_wait (polls w) (uuid_NewString w) 0 = Some (i, res) \<and>
            Unmarshal w res = Inr fileinfo \<and>
            FTPStreams st' = (FTPStreams st)(file_path \<mapsto>
              \<lparr> Token = RandMD5String (random w) @ ''-'' @ Checksum fileinfo, BufSize = 8192 \<rparr>) \<and>
            (r = Inr (Some \<lparr> Token = RandMD5String (random w) @ ''-'' @ Checksum fileinfo,
                             BufSize = 8192 \<rparr>) \<or>
             (\<exists>err. r = Inl err)))"
proof -
  obtain write_dir save_to_file tempname lock where
    p: "GenerateGetFilePaths w file_path = (write_dir, save_to_file, tempname, lock)"
    by (cases "GenerateGetFilePaths w file_path") auto
  show ?thesis
  proof (cases "mkdir_step w write_dir st")
    case (Inl err)
    with g p show ?thesis by (auto simp: GetFile_def)
  next
    case (Inr st1)
    note m = mkdir_step_sent[OF Inr]
    show ?thesis
    proof (cases "IsExist (files st1) lock")
      case True
      with g p Inr m show ?thesis by (auto simp: GetFile_def)
    next
      case False
      from g p Inr False obtain x where x: "StatFile w file_path st1 = Some x"
        by (cases "StatFile w file_path st1") (auto simp: GetFile_def)
      obtain sr st2 where x2: "x = (sr, st2)" by (cases x)
      note sf = StatFile_Some[OF x[unfolded x2]]
      show ?thesis
      proof (cases sr)
        case (Inl err)
        with g p Inr False x x2 sf m show ?thesis by (auto simp: GetFile_def)
      next
        case fi: (Inr fileinfo)
        from sf fi obtain i res where
          w: "StatFile_wait (polls w) (uuid_NewString w) 0 = Some (i, res)"
          and u: "Unmarshal w res = Inr fileinfo"
          by auto
        show ?thesis
        proof (cases "IsExist (files st2) save_to_file \<and>
                      SHA256SumFile (files st2) save_to_file = Checksum fileinfo")
          case True
          with g p Inr False x x2 fi sf m show ?thesis by (auto simp: GetFile_def)
        next
          case nf: False
          show ?thesis
          proof (cases "FileAllocate w save_to_file (Size fileinfo) st2")
            case (Inl err)
            with g p Inr False x x2 fi nf sf m show ?thesis by (auto simp: GetFile_def)
          next
            case al: (Inr st3)
            have f3: "FTPStreams st3 = FTPStreams st"
              using FileAllocate_Inr[OF al] sf m by simp
            from g p Inr False x x2 fi nf al f3 w u show ?thesis
              by (auto simp: GetFile_def Let_def dest!: SendCmd_Inr split: sum.splits)
          qed
        qed
      qed
    qed
  qed
qed

text \<open>A call that gets as far as the registration registers, whether or not the \<open>get\<close>
  command can then be sent.\<close>

lemma GetFile_registers:
  assumes p: "GenerateGetFilePaths w file_path = (write_dir, save_to_file, tempname, lock)"
    and m: "mkdir_step w write_dir st = Inr st1"
    and l: "\<not> IsExist (files st1) lock"
    and s: "StatFile w file_path st1 = Some (Inr fileinfo, st2)"
    and n: "\<not> (IsExist (files st2) save_to_file \<and>
               SHA256SumFile (files st2) save_to_file = Checksum fileinfo)"
    and a: "FileAllocate w save_to_file (Size fileinfo) st2 = Inr st3"
  shows "\<exists>r st'. GetFile w file_path st = Some (r, st') \<and>
           FTPStreams st' file_path =
             Some \<lparr> Token = RandMD5String (random w) @ ''-'' @ Checksum fileinfo, BufSize = 8192 \<rparr> \<and>
           (r = Inr (Some \<lparr> Token = RandMD5String (random w) @ ''-'' @ Checksum fileinfo,
                            BufSize = 8192 \<rparr>) \<or>
            (\<exists>err. r = Inl err))"
  using l n
  by (auto simp: GetFile_def p m s a Let_def SendCmd_def split: option.splits)

text \<open>
  C8. The nonce has exactly 16 characters, all of them hex digits. A call of \<open>GetFile\<close>
  that gets as far as the registration (the directory is there or made, there is no
  lock, the agent's stat reply decodes to a file information record, the final file is
  not already there with that checksum, the allocation succeeds) returns, and has then
  registered for the path a handler whose token is the nonce, a \<open>-\<close>, and the checksum
  of that record, whether it returns the handler or the error of sending the \<open>get\<close>
  command. And every call that returns has either left the table of streams alone and
  returned no handler, or registered for the path a handler with such a token, built
  from the checksum the agent reported, and returned that handler or an error.
\<close>

theorem GetFile_token_shape:
  assumes p: "GenerateGetFilePaths w file_path = (write_dir, save_to_file, tempname, lock)"
  shows
    "length (RandMD5String (random w)) = 16 \<and>
     list_all is_hex (RandMD5String (random w)) \<and>
     (mkdir_step w write_dir st = Inr st1 \<and>
      \<not> IsExist (files st1) lock \<and>
      StatFile w file_path st1 = Some (Inr fileinfo, st2) \<and>
      \<not> (IsExist (files st2) save_to_file \<and>
           SHA256SumFile (files st2) save_to_file = Checksum fileinfo) \<and>
      FileAllocate w save_to_file (Size fileinfo) st2 = Inr st3
      \<longrightarrow> (\<exists>r st'. GetFile w file_path st = Some (r, st') \<and>
             FTPStreams st' file_path =
               Some \<lparr> Token = RandMD5String (random w) @ ''-'' @ Checksum fileinfo, BufSize = 8192 \<rparr> \<and>
             (r = Inr (Some \<lparr> Token = RandMD5String (random w) @ ''-'' @ Checksum fileinfo,
                              BufSize = 8192 \<rparr>) \<or>
              (\<exists>err. r = Inl err)))) \<and>
     (\<forall>r st'. GetFile w file_path st = Some (r, st') \<longrightarrow>
        (FTPStreams st' = FTPStreams st \<and> (\<forall>h. r \<noteq> Inr (Some h))) \<or>
        (\<exists>i res fi.
           StatFile_wait (polls w) (uuid_NewString w) 0 = Some (i, res) \<and>
           Unmarshal w res = Inr fi \<and>
           FTPStreams st' = (FTPStreams st)(file_path \<mapsto>
             \<lparr> Token = RandMD5String (random w) @ ''-'' @ Checksum fi, BufSize = 8192 \<rparr>) \<and>
           (r = Inr (Some \<lparr> Token = RandMD5String (random w) @ ''-'' @ Checksum fi,
                            BufSize = 8192 \<rparr>) \<or>
            (\<exists>err. r = Inl err))))"
proof (intro conjI impI allI)
  show "length (RandMD5String (random w)) = 16" by (rule RandMD5String_length)
  show "list_all is_hex (RandMD5String (random w))" by (rule RandMD5String_hex)
next
  assume h: "mkdir_step w write_dir st = Inr st1 \<and>
      \<not> IsExist (files st1) lock \<and>
      StatFile w file_path st1 = Some (Inr fileinfo, st2) \<and>
      \<not> (IsExist (files st2) save_to_file \<and>
           SHA256SumFile (files st2) save_to_file = Checksum fileinfo) \<and>
      FileAllocate w save_to_file (Size fileinfo) st2 = Inr st3"
  show "\<exists>r st'. GetFile w file_path st = Some (r, st') \<and>
           FTPStreams st' file_path =
             Some \<lparr> Token = RandMD5String (random w) @ ''-'' @ Checksum fileinfo, BufSize = 8192 \<rparr> \<and>
           (r = Inr (Some \<lparr> Token = RandMD5String (random w) @ ''-'' @ Checksum fileinfo,
                            BufSize = 8192 \<rparr>) \<or>
            (\<exists>err. r = Inl err))"
  proof (rule GetFile_registers[OF p])
    show "mkdir_step w write_dir st = Inr st1" using h by blast
    show "\<not> IsExist (files st1) lock" using h by blast
    show "StatFile w file_path st1 = Some (Inr fileinfo, st2)" using h by blast
    show "\<not> (IsExist (files st2) save_to_file \<and>
             SHA256SumFile (files st2) save_to_file = Checksum fileinfo)" using h by blast
    show "FileAllocate w save_to_file (Size fileinfo) st2 = Inr st3" using h by blast
  qed
next
  fix r st'
  assume "GetFile w file_path st = Some (r, st')"
  then show "(FTPStreams st' = FTPStreams st \<and> (\<forall>h. r \<noteq> Inr (Some h))) \<or>
        (\<exists>i res fi.
           StatFile_wait (polls w) (uuid_NewString w) 0 = Some (i, res) \<and>
           Unmarshal w res = Inr fi \<and>
           FTPStreams st' = (FTPStreams st)(file_path \<mapsto>
             \<lparr> Token = RandMD5String (random w) @ ''-'' @ Checksum fi, BufSize = 8192 \<rparr>) \<and>
           (r = Inr (Some \<lparr> Token = RandMD5String (random w) @ ''-'' @ Checksum fi,
                            BufSize = 8192 \<rparr>) \<or>
            (\<exists>err. r = Inl err)))"
    by (rule GetFile_stream_table)
qed

text \<open>The witness: the \<open>get\<close> command cannot be sent, the call returns that error, and the
  handler is registered all the same, with the token \<open>0123456789abcdef-H\<close>.\<close>

theorem GetFile_token_shape_witness:
  "\<exists>st'. GetFile (example_world\<lparr>SendCmd_err := \<lambda>cmd. if prefix ''get'' cmd then Some ''boom'' else None\<rparr>)
            ''/etc/hostname'' example_partial = Some (Inl ''boom'', st') \<and>
          FTPStreams st' ''/etc/hostname'' =
            Some \<lparr> Token = ''0123456789abcdef'' @ ''-'' @ ''H'', BufSize = 8192 \<rparr> \<and>
          RandMD5String (random example_world) = ''0123456789abcdef''"
proof -
  let ?w = "example_world\<lparr>SendCmd_err := \<lambda>cmd. if prefix ''get'' cmd then Some ''boom'' else None\<rparr>"
  let ?st2 = "example_partial\<lparr>sent := [(stat_cmd ?w ''/etc/hostname'', ''id-1'')],
                CmdResults := [''id-2'' \<mapsto> ''stat-reply'']\<rparr>"
  let ?st3 = "?st2\<lparr>files := (files ?st2)
                (''/root/.emp3r0r/file-get/etc/hostname'' \<mapsto> RegularFile 12 ''sum-of-zeros'')\<rparr>"
  have p: "GenerateGetFilePaths ?w ''/etc/hostname'' =
     (''/root/.emp3r0r/file-get/etc'', ''/root/.emp3r0r/file-get/etc/hostname'',
      ''/root/.emp3r0r/file-get/etc/hostname.downloading'',
      ''/root/.emp3r0r/file-get/etc/hostname.lock'')"
    by (simp add: GenerateGetFilePaths_def example_world_def Let_def)
  have h: "mkdir_step ?w ''/root/.emp3r0r/file-get/etc'' example_partial = Inr example_partial \<and>
      \<not> IsExist (files example_partial) ''/root/.emp3r0r/file-get/etc/hostname.lock'' \<and>
      StatFile ?w ''/etc/hostname'' example_partial = Some (Inr \<lparr> Size = 12, Checksum = ''H'' \<rparr>, ?st2) \<and>
      \<not> (IsExist (files ?st2) ''/root/.emp3r0r/file-get/etc/hostname'' \<and>
           SHA256SumFile (files ?st2) ''/root/.emp3r0r/file-get/etc/hostname''
             = Checksum \<lparr> Size = 12, Checksum = ''H'' \<rparr>) \<and>
      FileAllocate ?w ''/root/.emp3r0r/file-get/etc/hostname''
        (Size \<lparr> Size = 12, Checksum = ''H'' \<rparr>) ?st2 = Inr ?st3"
    by (simp add: mkdir_step_def IsDirExist_def IsExist_def StatFile_def SendCmd_def Let_def
          stat_cmd_def squote_def StatFile_wait_now FileAllocate_def example_world_def
          example_partial_def)
  from GetFile_token_shape[OF p, THEN conjunct2, THEN conjunct2, THEN conjunct1, rule_format, OF h]
  obtain r st' where
    g: "GetFile ?w ''/etc/hostname'' example_partial = Some (r, st')"
    and f: "FTPStreams st' ''/etc/hostname'' =
       Some \<lparr> Token = RandMD5String (random ?w) @ ''-'' @ Checksum \<lparr> Size = 12, Checksum = ''H'' \<rparr>,
              BufSize = 8192 \<rparr>"
    by blast
  have n: "RandMD5String (random example_world) = ''0123456789abcdef''"
    by (simp add: example_world_def RandMD5String_def hexdigit_def upt_rec)
  have "fst (the (GetFile ?w ''/etc/hostname'' example_partial)) = Inl ''boom''"
    by (simp add: example_simps example_partial_def)
  with g have "r = Inl ''boom''" by simp
  with g f n show ?thesis by simp
qed

text \<open>
  C10, as stated, fails: the final file \<open>hostname\<close> is on disk with the checksum \<open>H\<close>
  that the agent reports, \<open>GetFile\<close> returns \<open>(nil, nil)\<close>, and yet one command, the stat
  command, has been sent to the agent.
\<close>

theorem GetFile_existing_file_sends_stat:
  "sent example_complete = [] \<and>
   IsExist (files example_complete) ''/root/.emp3r0r/file-get/etc/hostname'' \<and>
   SHA256SumFile (files example_complete) ''/root/.emp3r0r/file-get/etc/hostname'' = ''H'' \<and>
   (\<exists>st'. GetFile example_world ''/etc/hostname'' example_complete = Some (Inr None, st') \<and>
          sent st' = [(''!stat --path '' @ squote @ ''/etc/hostname'' @ squote, ''id-1'')])"
  by (simp add: example_simps example_complete_def)

text \<open>
  C10, amended. When the write directory exists, there is no lock, the agent answers
  the stat command, and the final file exists with the checksum the agent reports,
  \<open>GetFile\<close> returns \<open>(nil, nil)\<close> having sent the stat command and nothing else: no
  \<open>get\<close> command is sent, no stream is registered and no file is touched. And whenever
  \<open>GetFile\<close> returns a stream handler, it has sent the stat command and then the \<open>get\<close>
  command that carries the handler's token.
\<close>

theorem GetFile_existing_file_short_circuit:
  assumes p: "GenerateGetFilePaths w file_path = (write_dir, save_to_file, tempname, lock)"
  shows "(IsDirExist (files st) write_dir \<and> \<not> IsExist (files st) lock \<and>
          SendCmd_err w (stat_cmd w file_path) = None \<and>
          StatFile_wait (polls w) (uuid_NewString w) 0 = Some (i, res) \<and>
          Unmarshal w res = Inr fileinfo \<and>
          IsExist (files st) save_to_file \<and>
          SHA256SumFile (files st) save_to_file = Checksum fileinfo
          \<longrightarrow> (\<exists>st'. GetFile w file_path st = Some (Inr None, st') \<and>
                     sent st' = sent st @ [(stat_cmd w file_path, uuid_NewString w)] \<and>
                     FTPStreams st' = FTPStreams st \<and> files st' = files st)) \<and>
         (\<forall>ftpSh st'. GetFile w file_path st = Some (Inr (Some ftpSh), st')
          \<longrightarrow> (\<exists>offset. sent st' = sent st @ [(stat_cmd w file_path, uuid_NewString w),
                                               (get_cmd file_path offset (Token ftpSh), [])]))"
proof (intro conjI impI allI)
  assume a: "IsDirExist (files st) write_dir \<and> \<not> IsExist (files st) lock \<and>
          SendCmd_err w (stat_cmd w file_path) = None \<and>
          StatFile_wait (polls w) (uuid_NewString w) 0 = Some (i, res) \<and>
          Unmarshal w res = Inr fileinfo \<and>
          IsExist (files st) save_to_file \<and>
          SHA256SumFile (files st) save_to_file = Checksum fileinfo"
  then show "\<exists>st'. GetFile w file_path st = Some (Inr None, st') \<and>
                     sent st' = sent st @ [(stat_cmd w file_path, uuid_NewString w)] \<and>
                     FTPStreams st' = FTPStreams st \<and> files st' = files st"
    by (simp add: GetFile_def p mkdir_step_def StatFile_def SendCmd_def Let_def)
next
  fix ftpSh st'
  assume g: "GetFile w file_path st = Some (Inr (Some ftpSh), st')"
  from GetFile_handler[OF g p] obtain st1 st2 st3 fileinfo where
    m: "mkdir_step w write_dir st = Inr st1"
    and s: "StatFile w file_path st1 = Some (Inr fileinfo, st2)"
    and a: "FileAllocate w save_to_file (Size fileinfo) st2 = Inr st3"
    and st': "st' = st3\<lparr>FTPStreams := (FTPStreams st3)(file_path \<mapsto> ftpSh),
                sent := sent st3 @
                  [(get_cmd file_path (resume_offset (files st3) tempname) (Token ftpSh), [])]\<rparr>"
    by blast
  have "sent st2 = sent st1 @ [(stat_cmd w file_path, uuid_NewString w)]"
    using StatFile_Some[OF s] by auto
  moreover have "sent st3 = sent st2" using FileAllocate_Inr[OF a] by simp
  moreover have "sent st1 = sent st" using mkdir_step_sent[OF m] by simp
  ultimately show "\<exists>offset. sent st' = sent st @ [(stat_cmd w file_path, uuid_NewString w),
                                               (get_cmd file_path offset (Token ftpSh), [])]"
    using st' by auto
qed

theorem GetFile_existing_file_short_circuit_witness:
  "(\<exists>st'. GetFile example_world ''/etc/hostname'' example_complete = Some (Inr None, st') \<and>
          sent st' = [(stat_cmd example_world ''/etc/hostname'', ''id-1'')] \<and>
          FTPStreams st' = Map.empty) \<and>
   sent (snd (the (GetFile example_world ''/etc/hostname'' example_partial))) =
     [(stat_cmd example_world ''/etc/hostname'', ''id-1''),
      (get_cmd ''/etc/hostname'' 5 ''0123456789abcdef-H'', [])]"
proof -
  note t = GetFile_existing_file_short_circuit[OF example_paths]
  have a: "IsDirExist (files example_complete) ''/root/.emp3r0r/file-get/etc'' \<and>
        \<not> IsExist (files example_complete) ''/root/.emp3r0r/file-get/etc/hostname.lock'' \<and>
        SendCmd_err example_world (stat_cmd example_world ''/etc/hostname'') = None \<and>
        StatFile_wait (polls example_world) (uuid_NewString example_world) 0 = Some (0, ''stat-reply'') \<and>
        Unmarshal example_world ''stat-reply'' = Inr \<lparr> Size = 12, Checksum = ''H'' \<rparr> \<and>
        IsExist (files example_complete) ''/root/.emp3r0r/file-get/etc/hostname'' \<and>
        SHA256SumFile (files example_complete) ''/root/.emp3r0r/file-get/etc/hostname''
          = Checksum \<lparr> Size = 12, Checksum = ''H'' \<rparr>"
    by (simp add: example_complete_def example_world_def IsDirExist_def IsExist_def
          SHA256SumFile_def StatFile_wait_now)
  from t[THEN conjunct1, rule_format, OF a]
  have 1: "\<exists>st'. GetFile example_world ''/etc/hostname'' example_complete = Some (Inr None, st') \<and>
          sent st' = [(stat_cmd example_world ''/etc/hostname'', ''id-1'')] \<and>
          FTPStreams st' = Map.empty"
    by (auto simp: example_complete_def example_world_def)
  from t[THEN conjunct2, rule_format, OF example_partial_run]
  have 2: "sent (snd (the (GetFile example_world ''/etc/hostname'' example_partial))) =
     [(stat_cmd example_world ''/etc/hostname'', ''id-1''),
      (get_cmd ''/etc/hostname'' 5 ''0123456789abcdef-H'', [])]"
    by (simp add: example_partial_run)
  from 1 2 show ?thesis by blast
qed

end
